theory Spec2Isabelle
  imports Main "HOL-Library.Word"
begin

unbundle bit_operations_syntax

section \<open>JavaScript values used by the Ledger wallet\<close>

text \<open>
  A BIP32 path is an \<^verbatim>\<open>Array<number>\<close>. The elements are integer-valued JavaScript
  numbers; \<^verbatim>\<open>+=\<close> on them does not wrap at 32 bits, while \<^verbatim>\<open>&\<close> and \<^verbatim>\<open>>>>\<close> first
  reduce them to 32 bits. \<open>NaN\<close> is what arithmetic on a missing element yields
  (\<^verbatim>\<open>undefined + 1\<close>); a missing element itself (\<^verbatim>\<open>undefined\<close>) behaves like \<open>NaN\<close> under
  every operator that \<^verbatim>\<open>ledger.ts\<close> applies to a path element (\<^verbatim>\<open>+\<close>, \<^verbatim>\<open>&\<close>, \<^verbatim>\<open>===\<close> against
  a number), so one constructor stands for both. Integers are exact in the model; the
  JavaScript ones are exact up to \<open>2 ^ 53\<close>.
\<close>

datatype number = Num int | NaN

text \<open>\<^verbatim>\<open>ToUint32\<close> of ECMAScript: the low 32 bits of an integer, 0 for \<open>NaN\<close>.\<close>

definition ToUint32 :: "number \<Rightarrow> 32 word" where
  "ToUint32 x = (case x of Num n \<Rightarrow> word_of_int n | NaN \<Rightarrow> 0)"

text \<open>\<^verbatim>\<open>(a & b) >>> 0\<close>: the bitwise conjunction of the 32-bit forms, read unsigned.\<close>

definition band_u32 :: "number \<Rightarrow> number \<Rightarrow> number" where
  "band_u32 a b = Num (uint (ToUint32 a AND ToUint32 b))"

text \<open>
  \<^verbatim>\<open>a + b\<close> on numbers. The sum is exact, as the JavaScript one is while the operands
  and the sum are below \<open>2 ^ 53\<close> in absolute value.
\<close>

definition js_add :: "number \<Rightarrow> number \<Rightarrow> number" where
  "js_add a b = (case (a, b) of (Num m, Num n) \<Rightarrow> Num (m + n) | _ \<Rightarrow> NaN)"

text \<open>\<^verbatim>\<open>a === b\<close> on numbers: \<open>NaN\<close> is equal to nothing, itself included.\<close>

definition js_eq :: "number \<Rightarrow> number \<Rightarrow> bool" where
  "js_eq a b = (case (a, b) of (Num m, Num n) \<Rightarrow> m = n | _ \<Rightarrow> False)"

text \<open>\<^verbatim>\<open>a >= b\<close> and \<^verbatim>\<open>a < b\<close> on numbers: both are false when an operand is \<open>NaN\<close>.\<close>

definition js_ge :: "number \<Rightarrow> number \<Rightarrow> bool" where
  "js_ge a b = (case (a, b) of (Num m, Num n) \<Rightarrow> n \<le> m | _ \<Rightarrow> False)"

definition js_lt :: "number \<Rightarrow> number \<Rightarrow> bool" where
  "js_lt a b = (case (a, b) of (Num m, Num n) \<Rightarrow> m < n | _ \<Rightarrow> False)"

text \<open>\<^verbatim>\<open>xs[i]\<close>: reading past the end gives \<^verbatim>\<open>undefined\<close>.\<close>

definition nth_js :: "number list \<Rightarrow> nat \<Rightarrow> number" where
  "nth_js xs i = (if i < length xs then xs ! i else NaN)"

text \<open>\<^verbatim>\<open>xs[i] = v\<close>: writing past the end extends the array, leaving holes before \<open>i\<close>.\<close>

definition assign_js :: "number list \<Rightarrow> nat \<Rightarrow> number \<Rightarrow> number list" where
  "assign_js xs i v =
     (if i < length xs then xs[i := v] else xs @ replicate (i - length xs) NaN @ [v])"

text \<open>
  Decimal digits of a non-negative integer, and \<^verbatim>\<open>`${x}`\<close> for a number: all the
  digits of an integer, as JavaScript prints them below \<open>10 ^ 21\<close>.
\<close>

function digits :: "int \<Rightarrow> string" where
  "digits n =
     (if n < 10 then [char_of (48 + n)] else digits (n div 10) @ [char_of (48 + n mod 10)])"
  by pat_completeness auto
termination
  by (relation "measure nat") auto

declare digits.simps [simp del]

definition number_toString :: "number \<Rightarrow> string" where
  "number_toString x =
     (case x of
        NaN \<Rightarrow> ''NaN''
      | Num n \<Rightarrow> if n < 0 then ''-'' @ digits (- n) else digits n)"

text \<open>\<^verbatim>\<open>String.prototype.toLowerCase\<close> on the ASCII letters; other bytes are unchanged.\<close>

definition toLowerCase_char :: "char \<Rightarrow> char" where
  "toLowerCase_char c =
     (let n = (of_char c :: nat) in if 65 \<le> n \<and> n \<le> 90 then char_of (n + 32) else c)"

definition toLowerCase :: "string \<Rightarrow> string" where
  "toLowerCase s = map toLowerCase_char s"

section \<open>Types of hdwallet-core\<close>

record PathDescription =
  verbose :: string
  coin :: string
  isKnown :: bool
  wholeAccount :: "bool option"
  accountIdx :: "number option"
  isPrefork :: "bool option"

record DescribePath =
  path :: "number list"
  coin :: string
  scriptType :: "string option"

text \<open>
  The functions of \<^verbatim>\<open>@shapeshiftoss/hdwallet-core\<close> that \<^verbatim>\<open>ledger.ts\<close> calls. Their
  source is a different package, so they are parameters of the model: every function
  below that calls \<^verbatim>\<open>core.f\<close> takes a value of this record and applies its field \<open>f\<close>.
\<close>

record core =
  addressNListToBIP32 :: "number list \<Rightarrow> string"
  slip44ByCoin :: "string \<Rightarrow> number"
  describePath :: "DescribePath \<Rightarrow> PathDescription"
  btcDescribePath :: "number list \<Rightarrow> string \<Rightarrow> string \<Rightarrow> PathDescription"
  ethDescribePath :: "number list \<Rightarrow> PathDescription"
  hardenedPath :: "number list \<Rightarrow> number list"
  relativePath :: "number list \<Rightarrow> number list"

section \<open>The Ledger path classifier for Ethereum\<close>

definition ethDescribeLedgerPath :: "core \<Rightarrow> number list \<Rightarrow> PathDescription" where
  "ethDescribeLedgerPath c p =
     (let pathStr = addressNListToBIP32 c p;
          unknown = \<lparr>verbose = pathStr, coin = ''Ethereum'', isKnown = False,
                     wholeAccount = None, accountIdx = None, isPrefork = None\<rparr>;
          known = (\<lambda>accountIdx.
                     \<lparr>verbose = ''Ethereum Account #'' @ number_toString accountIdx,
                      coin = ''Ethereum'', isKnown = True, wholeAccount = Some True,
                      accountIdx = Some accountIdx, isPrefork = Some False\<rparr>)
      in if length p \<noteq> 5 \<and> length p \<noteq> 4 then unknown
         else if \<not> js_eq (nth_js p 0) (Num (0x80000000 + 44)) then unknown
         else if \<not> js_eq (nth_js p 1)
                     (js_add (Num 0x80000000) (slip44ByCoin c ''Ethereum'')) then unknown
         else if \<not> js_eq (band_u32 (nth_js p 2) (Num 0x80000000)) (Num 0x80000000)
           then unknown
         else if length p = 5 then
           (if \<not> js_eq (nth_js p 3) (Num 0) then unknown
            else if \<not> js_eq (nth_js p 4) (Num 0) then unknown
            else known (band_u32 (nth_js p 2) (Num 0x7fffffff)))
         else if length p = 4 then
           (if \<not> js_eq (nth_js p 2) (Num 0x80000000) then unknown
            else if js_eq (band_u32 (nth_js p 3) (Num 0x80000000)) (Num 0x80000000)
              then unknown
            else known (nth_js p 3))
         else unknown)"

text \<open>
  \<^verbatim>\<open>LedgerHDWalletInfo.describePath\<close>. The generic classifier of hdwallet-core is
  \<open>core.describePath\<close>.
\<close>

definition describePath :: "core \<Rightarrow> DescribePath \<Rightarrow> PathDescription" where
  "describePath c msg =
     (if toLowerCase (DescribePath.coin msg) = ''ethereum''
      then ethDescribeLedgerPath c (path msg)
      else core.describePath c msg)"

section \<open>Arrays are shared: the store\<close>

text \<open>
  \<^verbatim>\<open>btcNextAccountPath\<close> and \<^verbatim>\<open>ethNextAccountPath\<close> write to arrays, and an array held by
  a message is the caller's array, not a copy. A path inside an account-path message is
  therefore an address into a store of arrays; \<^verbatim>\<open>concat\<close> and \<^verbatim>\<open>filter\<close> allocate a new
  array at the next free address. Objects are values: \<^verbatim>\<open>{...msg, f}\<close> is a record update.
  An address held by a message is an address of the store, below its length: a
  JavaScript reference always has its array.
\<close>

type_synonym ref = nat
type_synonym store = "number list list"

definition alloc :: "store \<Rightarrow> number list \<Rightarrow> ref \<times> store" where
  "alloc h xs = (length h, h @ [xs])"

text \<open>\<^verbatim>\<open>a[i] += 1\<close> on the array at address \<open>a\<close>.\<close>

definition incr_at :: "store \<Rightarrow> ref \<Rightarrow> nat \<Rightarrow> store" where
  "incr_at h a i = h[a := assign_js (h ! a) i (js_add (nth_js (h ! a) i) (Num 1))]"

record BTCAccountPath =
  coin :: string
  scriptType :: string
  addressNList :: ref

record ETHAccountPath =
  addressNList :: ref
  hardenedPath :: ref
  relPath :: ref

section \<open>Next account path\<close>

definition btcNextAccountPath ::
  "core \<Rightarrow> 'a BTCAccountPath_scheme \<Rightarrow> store \<Rightarrow> 'a BTCAccountPath_scheme option \<times> store"
where
  "btcNextAccountPath c msg h =
     (let description =
            core.btcDescribePath c (h ! BTCAccountPath.addressNList msg)
              (BTCAccountPath.coin msg) (BTCAccountPath.scriptType msg)
      in if \<not> isKnown description then (None, h)
         else
           let addressNList = BTCAccountPath.addressNList msg
           in if js_eq (nth_js (h ! addressNList) 0) (Num (0x80000000 + 44)) \<or>
                 js_eq (nth_js (h ! addressNList) 0) (Num (0x80000000 + 49)) \<or>
                 js_eq (nth_js (h ! addressNList) 0) (Num (0x80000000 + 84))
              then (Some (msg\<lparr>BTCAccountPath.addressNList := addressNList\<rparr>),
                    incr_at h addressNList 2)
              else (None, h))"

definition ethNextAccountPath ::
  "core \<Rightarrow> 'a ETHAccountPath_scheme \<Rightarrow> store \<Rightarrow> 'a ETHAccountPath_scheme option \<times> store"
where
  "ethNextAccountPath c msg h =
     (let (addressNList, h1) =
            alloc h (h ! ETHAccountPath.hardenedPath msg @ h ! ETHAccountPath.relPath msg);
          description = core.ethDescribePath c (h1 ! addressNList);
          split = (\<lambda>h2. let (hp, h3) = alloc h2 (core.hardenedPath c (h2 ! addressNList));
                              (rp, h4) = alloc h3 (core.relativePath c (h3 ! addressNList))
                          in (hp, rp, h4))
      in if \<not> isKnown description then (None, h1)
         else if wholeAccount description = Some True then
           (let (hp, rp, h4) = split (incr_at h1 addressNList 2)
            in (Some (msg\<lparr>ETHAccountPath.addressNList := addressNList,
                            ETHAccountPath.hardenedPath := hp, relPath := rp\<rparr>), h4))
         else if length (h1 ! addressNList) = 5 then
           (let (hp, rp, h4) = split (incr_at h1 addressNList 2)
            in (Some (msg\<lparr>ETHAccountPath.hardenedPath := hp, relPath := rp\<rparr>), h4))
         else if length (h1 ! addressNList) = 4 then
           (let (hp, rp, h4) = split (incr_at h1 addressNList 3)
            in (Some (msg\<lparr>ETHAccountPath.hardenedPath := hp, relPath := rp\<rparr>), h4))
         else (None, h1))"

section \<open>The device session\<close>

text \<open>
  A thrown exception is a value: \<open>Error m\<close> is \<^verbatim>\<open>new Error(m)\<close>, \<open>WrongApp v a\<close> is
  \<^verbatim>\<open>new core.WrongApp(v, a)\<close>, and \<open>Thrown d\<close> is whatever a collaborator (the transport,
  \<^verbatim>\<open>handleError\<close>, a coin backend) throws, known only by a description.
\<close>

datatype error = Error string | WrongApp string string | Thrown string

record Payload =
  name :: string

record Response =
  success :: bool
  payload :: Payload

text \<open>
  \<^verbatim>\<open>LedgerTransport\<close> is an abstract class of \<^verbatim>\<open>./transport\<close>: \<open>call\<close> takes the coin
  context, the method and its arguments, and the state \<open>'t\<close> of the session with the
  device; it answers with a response or throws, and leaves the session in a new state.
  An \<^verbatim>\<open>async\<close> method is a function from the session state to its outcome and the
  state after it; \<^verbatim>\<open>await\<close> runs one such function and then the rest.
\<close>

record 't LedgerTransport =
  call :: "string option \<Rightarrow> string \<Rightarrow> string list \<Rightarrow> 't \<Rightarrow> (error + Response) \<times> 't"

type_synonym ('t, 'a) async = "'t \<Rightarrow> (error + 'a) \<times> 't"

definition await :: "('t, 'a) async \<Rightarrow> ('a \<Rightarrow> ('t, 'b) async) \<Rightarrow> ('t, 'b) async" where
  "await m k t = (case m t of (Inl e, t') \<Rightarrow> (Inl e, t') | (Inr x, t') \<Rightarrow> k x t')"

text \<open>
  \<^verbatim>\<open>./utils\<close>: the table from coins to application names, and \<^verbatim>\<open>handleError\<close>, which
  returns on a response it accepts and throws on any other.
\<close>

record utils =
  coinToLedgerAppName :: "string \<Rightarrow> string option"
  handleError :: "Response \<Rightarrow> error option"

text \<open>\<^verbatim>\<open>const res = await this.transport.call(null, m); handleError(res, this.transport)\<close>.\<close>

definition call_checked :: "utils \<Rightarrow> 't LedgerTransport \<Rightarrow> string \<Rightarrow> ('t, Response) async" where
  "call_checked u tr m =
     await (call tr None m [])
       (\<lambda>res t. case handleError u res of Some e \<Rightarrow> (Inl e, t) | None \<Rightarrow> (Inr res, t))"

text \<open>
  \<^verbatim>\<open>validateCurrentApp(coin?: core.Coin)\<close>: \<^verbatim>\<open>!coin\<close> holds for a missing coin and for
  the empty string, \<^verbatim>\<open>!appName\<close> for a missing name and for the empty one.
\<close>

definition validateCurrentApp ::
  "utils \<Rightarrow> 't LedgerTransport \<Rightarrow> string option \<Rightarrow> ('t, unit) async"
where
  "validateCurrentApp u tr coin' t =
     (case coin' of
        None \<Rightarrow> (Inl (Error ''No coin provided''), t)
      | Some cn \<Rightarrow>
          if cn = [] then (Inl (Error ''No coin provided''), t)
          else
            (case coinToLedgerAppName u cn of
               None \<Rightarrow>
                 (Inl (Error (''Unable to find associated app name for coin: '' @ cn)), t)
             | Some appName \<Rightarrow>
                 if appName = [] then
                   (Inl (Error (''Unable to find associated app name for coin: '' @ cn)), t)
                 else
                   await (call_checked u tr ''getAppAndVersion'')
                     (\<lambda>res t'.
                        let currentApp = name (payload res)
                        in if currentApp \<noteq> appName
                           then (Inl (WrongApp ''Ledger'' appName), t')
                           else (Inr (), t')) t))"

text \<open>
  \<^verbatim>\<open>getPublicKeys\<close>. Its parameters from \<^verbatim>\<open>./bitcoin\<close> and \<^verbatim>\<open>./ethereum\<close> are the list
  \<^verbatim>\<open>btc.supportedCoins\<close> and the two backends.
\<close>

definition getPublicKeys ::
  "utils \<Rightarrow> 't LedgerTransport \<Rightarrow> string list \<Rightarrow> ('k list \<Rightarrow> ('t, 'r) async) \<Rightarrow>
   ('k list \<Rightarrow> ('t, 'r) async) \<Rightarrow> 'k list \<Rightarrow> ('t, 'r) async"
where
  "getPublicKeys u tr btc_supportedCoins btc_btcGetPublicKeys eth_ethGetPublicKeys msg =
     await (call_checked u tr ''getAppAndVersion'')
       (\<lambda>res.
          let nm = name (payload res);
              btcApps = set (filter (\<lambda>x. x \<noteq> None)
                               (map (\<lambda>x. coinToLedgerAppName u x) btc_supportedCoins))
          in if Some nm \<in> btcApps then btc_btcGetPublicKeys msg
             else if nm = ''Ethereum'' then eth_ethGetPublicKeys msg
             else (\<lambda>t. (Inl (Error (''getPublicKeys is not supported with the '' @ nm @
                                     '' app'')), t)))"

text \<open>
  The operations that sign or show an address. Each takes the backend function it
  delegates to as a parameter; a Bitcoin message carries its coin.
\<close>

record BTCGetAddress =
  coin :: string

record BTCSignTxLedger =
  coin :: string

record BTCSignMessage =
  coin :: string

definition btcGetAddress ::
  "utils \<Rightarrow> 't LedgerTransport \<Rightarrow> ('a BTCGetAddress_scheme \<Rightarrow> ('t, 'r) async) \<Rightarrow>
   'a BTCGetAddress_scheme \<Rightarrow> ('t, 'r) async"
where
  "btcGetAddress u tr btc_btcGetAddress msg =
     await (validateCurrentApp u tr (Some (BTCGetAddress.coin msg)))
       (\<lambda>_. btc_btcGetAddress msg)"

definition btcSignTx ::
  "utils \<Rightarrow> 't LedgerTransport \<Rightarrow> ('a BTCSignTxLedger_scheme \<Rightarrow> ('t, 'r) async) \<Rightarrow>
   'a BTCSignTxLedger_scheme \<Rightarrow> ('t, 'r) async"
where
  "btcSignTx u tr btc_btcSignTx msg =
     await (validateCurrentApp u tr (Some (BTCSignTxLedger.coin msg)))
       (\<lambda>_. btc_btcSignTx msg)"

definition btcSignMessage ::
  "utils \<Rightarrow> 't LedgerTransport \<Rightarrow> ('a BTCSignMessage_scheme \<Rightarrow> ('t, 'r) async) \<Rightarrow>
   'a BTCSignMessage_scheme \<Rightarrow> ('t, 'r) async"
where
  "btcSignMessage u tr btc_btcSignMessage msg =
     await (validateCurrentApp u tr (Some (BTCSignMessage.coin msg)))
       (\<lambda>_. btc_btcSignMessage msg)"

definition ethSignTx ::
  "utils \<Rightarrow> 't LedgerTransport \<Rightarrow> ('m \<Rightarrow> ('t, 'r) async) \<Rightarrow> 'm \<Rightarrow> ('t, 'r) async"
where
  "ethSignTx u tr eth_ethSignTx msg =
     await (validateCurrentApp u tr (Some ''Ethereum'')) (\<lambda>_. eth_ethSignTx msg)"

definition ethGetAddress ::
  "utils \<Rightarrow> 't LedgerTransport \<Rightarrow> ('m \<Rightarrow> ('t, 'r) async) \<Rightarrow> 'm \<Rightarrow> ('t, 'r) async"
where
  "ethGetAddress u tr eth_ethGetAddress msg =
     await (validateCurrentApp u tr (Some ''Ethereum'')) (\<lambda>_. eth_ethGetAddress msg)"

definition ethSignMessage ::
  "utils \<Rightarrow> 't LedgerTransport \<Rightarrow> ('m \<Rightarrow> ('t, 'r) async) \<Rightarrow> 'm \<Rightarrow> ('t, 'r) async"
where
  "ethSignMessage u tr eth_ethSignMessage msg =
     await (validateCurrentApp u tr (Some ''Ethereum'')) (\<lambda>_. eth_ethSignMessage msg)"

section \<open>Vocabulary of the specification\<close>

text \<open>
  \<open>hardened i\<close> is the path element with index \<open>i\<close> and bit 31 set. An element is
  hardened when its bit 31 is set; a well-formed element is a 32-bit unsigned integer.
\<close>

definition hardened :: "int \<Rightarrow> int" where
  "hardened i = 0x80000000 + i"

definition is_hardened :: "number \<Rightarrow> bool" where
  "is_hardened x = (case x of Num n \<Rightarrow> bit n 31 | NaN \<Rightarrow> False)"

definition is_uint32 :: "number \<Rightarrow> bool" where
  "is_uint32 x = (case x of Num n \<Rightarrow> 0 \<le> n \<and> n < 2 ^ 32 | NaN \<Rightarrow> False)"

text \<open>
  The structural rules of the EVM scheme, as the specification lists them, for the
  coin type \<open>s\<close>: a path breaks them when one of the listed defects is present.
\<close>

definition violates_evm_scheme :: "int \<Rightarrow> number list \<Rightarrow> bool" where
  "violates_evm_scheme s p =
     ((length p \<noteq> 4 \<and> length p \<noteq> 5) \<or>
      nth_js p 0 \<noteq> Num (hardened 44) \<or>
      nth_js p 1 \<noteq> Num (hardened s) \<or>
      \<not> is_hardened (nth_js p 2) \<or>
      (length p = 5 \<and> (nth_js p 3 \<noteq> Num 0 \<or> nth_js p 4 \<noteq> Num 0)) \<or>
      (length p = 4 \<and> (nth_js p 2 \<noteq> Num (hardened 0) \<or> is_hardened (nth_js p 3))))"

text \<open>
  Two strings are equal up to case when they have the same length and, position by
  position, the same character or the upper-case and lower-case form of one ASCII letter.
\<close>

definition same_letter :: "char \<Rightarrow> char \<Rightarrow> bool" where
  "same_letter a b =
     (a = b \<or>
      (65 \<le> (of_char a :: nat) \<and> (of_char a :: nat) \<le> 90 \<and> (of_char b :: nat) = of_char a + 32) \<or>
      (65 \<le> (of_char b :: nat) \<and> (of_char b :: nat) \<le> 90 \<and> (of_char a :: nat) = of_char b + 32))"

definition equal_ignoring_case :: "string \<Rightarrow> string \<Rightarrow> bool" where
  "equal_ignoring_case s t = list_all2 same_letter s t"

section \<open>An instance of the collaborators\<close>

text \<open>
  Modelled from the spec: the functions of hdwallet-core, whose source is a different
  package. The canonical string of a path is the BIP32 notation, a hardened element
  written with an apostrophe.
\<close>

definition bip32_element :: "number \<Rightarrow> string" where
  "bip32_element x =
     (if js_ge x (Num 0x80000000) then number_toString (js_add x (Num (- 0x80000000))) @ [CHR 0x27]
      else number_toString x)"

definition bip32_string :: "number list \<Rightarrow> string" where
  "bip32_string p = ''m'' @ concat (map (\<lambda>x. ''/'' @ bip32_element x) p)"

text \<open>
  Modelled from the spec: the generic classifier of the UTXO family, which recognises
  the account paths of BIP44, BIP49 and BIP84: a hardened purpose 44, 49 or 84, a
  hardened coin type and a hardened account index, alone or followed by two elements.
\<close>

definition spec_btcDescribePath :: "number list \<Rightarrow> string \<Rightarrow> string \<Rightarrow> PathDescription" where
  "spec_btcDescribePath p cn st =
     (if (length p = 3 \<or> length p = 5) \<and>
         (nth_js p 0 = Num (hardened 44) \<or> nth_js p 0 = Num (hardened 49) \<or>
          nth_js p 0 = Num (hardened 84)) \<and>
         js_ge (nth_js p 1) (Num 0x80000000) \<and> is_uint32 (nth_js p 1) \<and>
         js_ge (nth_js p 2) (Num 0x80000000) \<and> is_uint32 (nth_js p 2)
      then \<lparr>verbose = cn @ '' Account #'' @
                number_toString (js_add (nth_js p 2) (Num (- 0x80000000))),
            coin = cn, isKnown = True, wholeAccount = Some (length p = 3),
            accountIdx = Some (js_add (nth_js p 2) (Num (- 0x80000000))),
            isPrefork = Some False\<rparr>
      else \<lparr>verbose = bip32_string p, coin = cn, isKnown = False, wholeAccount = None,
            accountIdx = None, isPrefork = None\<rparr>)"

text \<open>
  Modelled from the spec: the coin type of Ethereum is 60 (\<^verbatim>\<open>0x3C\<close> in the scenarios);
  an unrecognised coin has no path description beyond its canonical string; the split
  of a path puts its hardened elements (value at least \<^verbatim>\<open>0x80000000\<close>) in
  \<open>hardenedPath\<close> and the others in \<open>relPath\<close>.
\<close>

definition core0 :: core where
  "core0 =
     \<lparr>addressNListToBIP32 = bip32_string,
      slip44ByCoin = (\<lambda>cn. if cn = ''Ethereum'' then Num 60
                            else if cn = ''Bitcoin'' then Num 0 else NaN),
      describePath = (\<lambda>msg. \<lparr>verbose = bip32_string (path msg),
                               coin = DescribePath.coin msg, isKnown = False,
                               wholeAccount = None, accountIdx = None, isPrefork = None\<rparr>),
      btcDescribePath = spec_btcDescribePath,
      ethDescribePath = (\<lambda>p. \<lparr>verbose = bip32_string p, coin = ''Ethereum'',
                                isKnown = False, wholeAccount = None, accountIdx = None,
                                isPrefork = None\<rparr>),
      hardenedPath = filter (\<lambda>x. js_ge x (Num 0x80000000)),
      relativePath = filter (\<lambda>x. js_lt x (Num 0x80000000))\<rparr>"

text \<open>
  Modelled from the spec: the account path enumerator validates an EVM path with the
  path classifier of the EVM scheme, the rules that \<open>ethDescribeLedgerPath\<close> implements.
\<close>

definition spec_core :: core where
  "spec_core = core0\<lparr>ethDescribePath := ethDescribeLedgerPath core0\<rparr>"

text \<open>
  Modelled from the spec: a binding table with one application per coin, a transport
  whose device runs the application \<open>app\<close> and answers every call with success, the
  session state being the list of the methods called so far, and backends that record
  their invocation in that list.
\<close>

definition utils0 :: utils where
  "utils0 =
     \<lparr>coinToLedgerAppName =
        map_of [(''Bitcoin'', ''Bitcoin''), (''Litecoin'', ''Litecoin''),
                (''Ethereum'', ''Ethereum'')],
      handleError = (\<lambda>res. if success res then None else Some (Thrown ''transport failure''))\<rparr>"

definition device_running :: "string \<Rightarrow> (string list) LedgerTransport" where
  "device_running app =
     \<lparr>call = (\<lambda>ctx m args t. (Inr \<lparr>success = True, payload = \<lparr>name = app\<rparr>\<rparr>, t @ [m]))\<rparr>"

definition backend0 :: "string \<Rightarrow> 'm \<Rightarrow> (string list, string) async" where
  "backend0 tag msg t = (Inr tag, t @ [tag])"

section \<open>Arithmetic of path elements\<close>

lemma div_exp_eq_1:
  assumes "2 ^ k \<le> n" "n < 2 * 2 ^ k"
  shows "(n::int) div 2 ^ k = 1"
proof -
  have "n div 2 ^ k = (2 ^ k + (n - 2 ^ k)) div 2 ^ k" by simp
  also have "\<dots> = (n - 2 ^ k) div 2 ^ k + 1"
    using div_add_self1 [of "2 ^ k" "n - 2 ^ k"] by simp
  also have "(n - 2 ^ k) div 2 ^ k = 0" using assms by simp
  finally show ?thesis by simp
qed

lemma bit_top_iff:
  assumes "0 \<le> n" "n < 2 * 2 ^ k"
  shows "bit (n::int) k \<longleftrightarrow> 2 ^ k \<le> n"
proof (cases "2 ^ k \<le> n")
  case True
  then have "n div 2 ^ k = 1" using assms(2) by (rule div_exp_eq_1)
  then show ?thesis using True by (simp add: bit_iff_odd)
next
  case False
  then have "n div 2 ^ k = 0" using assms(1) by simp
  then show ?thesis using False by (simp add: bit_iff_odd)
qed

lemma bit31_iff: "0 \<le> n \<Longrightarrow> n < 4294967296 \<Longrightarrow> bit (n::int) 31 \<longleftrightarrow> 2147483648 \<le> n"
  using bit_top_iff [of n 31] by simp

lemma mask31: "(0x7fffffff::int) = mask 31"
  by (simp add: mask_eq_exp_minus_1)

lemma band_low: "band_u32 (Num n) (Num 0x7fffffff) = Num (n mod 2 ^ 31)"
proof -
  have "uint ((word_of_int n :: 32 word) AND 0x7fffffff) = take_bit 32 n AND 0x7fffffff"
    by (simp add: uint_and uint_word_of_int_eq)
  also have "\<dots> = take_bit 31 (take_bit 32 n)"
    by (simp only: mask31 take_bit_eq_mask)
  also have "\<dots> = take_bit 31 n" by simp
  finally show ?thesis by (simp add: band_u32_def ToUint32_def take_bit_eq_mod)
qed

lemma and_exp_if: "take_bit (Suc k) (n::int) AND 2 ^ k = (if bit n k then 2 ^ k else 0)"
  by (rule bit_eqI) (auto simp add: bit_and_iff bit_take_bit_iff bit_exp_iff)

lemma band_top: "band_u32 (Num n) (Num 0x80000000) = Num (if bit n 31 then 0x80000000 else 0)"
proof -
  have "uint ((word_of_int n :: 32 word) AND 0x80000000) = take_bit 32 n AND 2 ^ 31"
    by (simp add: uint_and uint_word_of_int_eq)
  also have "\<dots> = (if bit n 31 then 2 ^ 31 else 0)"
    using and_exp_if [of 31 n] by simp
  finally show ?thesis by (simp add: band_u32_def ToUint32_def)
qed

lemma band_NaN: "band_u32 NaN m = Num 0"
  by (simp add: band_u32_def ToUint32_def)

lemma js_eq_Num: "js_eq x (Num k) \<longleftrightarrow> x = Num k"
  by (cases x) (auto simp add: js_eq_def)

lemma hardened_test: "band_u32 x (Num 0x80000000) = Num 0x80000000 \<longleftrightarrow> is_hardened x"
  by (cases x) (simp_all add: band_top band_NaN is_hardened_def)

lemma bit31_hardened: "0 \<le> i \<Longrightarrow> i < 2147483648 \<Longrightarrow> bit (hardened i) 31"
  using bit31_iff [of "hardened i"] by (simp add: hardened_def)

lemma hardened_mod: "0 \<le> i \<Longrightarrow> i < 2147483648 \<Longrightarrow> hardened i mod 2147483648 = i"
  by (simp add: hardened_def)


lemma js_add_Num: "js_add (Num a) (Num b) = Num (a + b)"
  by (simp add: js_add_def)

lemma classify5:
  assumes "slip44ByCoin c ''Ethereum'' = Num s"
  shows "ethDescribeLedgerPath c [Num (hardened 44), Num (hardened s), Num n, Num 0, Num 0] =
     (if bit n 31
      then \<lparr>verbose = ''Ethereum Account #'' @ number_toString (Num (n mod 2 ^ 31)),
            coin = ''Ethereum'', isKnown = True, wholeAccount = Some True,
            accountIdx = Some (Num (n mod 2 ^ 31)), isPrefork = Some False\<rparr>
      else \<lparr>verbose = addressNListToBIP32 c [Num (hardened 44), Num (hardened s), Num n, Num 0, Num 0],
            coin = ''Ethereum'', isKnown = False, wholeAccount = None, accountIdx = None,
            isPrefork = None\<rparr>)"
  using assms
  by (simp add: ethDescribeLedgerPath_def Let_def nth_js_def js_eq_Num hardened_test js_add_Num
      band_low is_hardened_def hardened_def)

lemma is_hardened_top: "is_hardened (Num 0x80000000)"
  using bit31_iff [of 2147483648] by (simp add: is_hardened_def)

lemma classify4:
  assumes "slip44ByCoin c ''Ethereum'' = Num s"
  shows "ethDescribeLedgerPath c [Num (hardened 44), Num (hardened s), p2, p3] =
     (if p2 = Num 0x80000000 \<and> \<not> is_hardened p3
      then \<lparr>verbose = ''Ethereum Account #'' @ number_toString p3,
            coin = ''Ethereum'', isKnown = True, wholeAccount = Some True,
            accountIdx = Some p3, isPrefork = Some False\<rparr>
      else \<lparr>verbose = addressNListToBIP32 c [Num (hardened 44), Num (hardened s), p2, p3],
            coin = ''Ethereum'', isKnown = False, wholeAccount = None, accountIdx = None,
            isPrefork = None\<rparr>)"
  using assms is_hardened_top
  by (simp add: ethDescribeLedgerPath_def Let_def nth_js_def js_eq_Num hardened_test js_add_Num
      hardened_def)

lemma toLowerCase_char_iff:
  assumes "\<not> (65 \<le> (of_char b :: nat) \<and> (of_char b :: nat) \<le> 90)"
  shows "toLowerCase_char a = b \<longleftrightarrow> same_letter a b"
proof (cases "65 \<le> (of_char a :: nat) \<and> (of_char a :: nat) \<le> 90")
  case True
  then have neq: "a \<noteq> b" using assms by auto
  have "char_of (of_char a + 32 :: nat) = b \<longleftrightarrow> (of_char b :: nat) = of_char a + 32"
  proof
    assume "char_of (of_char a + 32 :: nat) = b"
    then have "(of_char b :: nat) = (of_char a + 32) mod 256" by (auto simp add: of_char_of)
    then show "(of_char b :: nat) = of_char a + 32" using True by simp
  next
    assume "(of_char b :: nat) = of_char a + 32"
    then have "char_of (of_char b :: nat) = char_of (of_char a + 32 :: nat)" by simp
    then show "char_of (of_char a + 32 :: nat) = b" by simp
  qed
  then show ?thesis using True neq assms by (auto simp add: toLowerCase_char_def same_letter_def Let_def)
next
  case False
  then show ?thesis using assms by (auto simp add: toLowerCase_char_def same_letter_def Let_def)
qed

lemma toLowerCase_iff:
  assumes "\<forall>b \<in> set t. \<not> (65 \<le> (of_char b :: nat) \<and> (of_char b :: nat) \<le> 90)"
  shows "toLowerCase s = t \<longleftrightarrow> equal_ignoring_case s t"
  using assms
proof (induction s arbitrary: t)
  case Nil
  then show ?case by (auto simp add: toLowerCase_def equal_ignoring_case_def)
next
  case (Cons a s)
  show ?case
  proof (cases t)
    case Nil
    then show ?thesis by (simp add: toLowerCase_def equal_ignoring_case_def)
  next
    case (Cons b t')
    have "toLowerCase s = t' \<longleftrightarrow> equal_ignoring_case s t'"
      using Cons.IH [of t'] Cons.prems Cons by simp
    moreover have "toLowerCase_char a = b \<longleftrightarrow> same_letter a b"
      using Cons.prems Cons by (intro toLowerCase_char_iff) simp
    ultimately show ?thesis using Cons
      by (simp add: toLowerCase_def equal_ignoring_case_def)
  qed
qed

lemma ethereum_lower: "\<forall>b \<in> set ''ethereum''. \<not> (65 \<le> (of_char b :: nat) \<and> (of_char b :: nat) \<le> 90)"
  by simp

section \<open>The path classifier\<close>

text \<open>
  C1 (as amended). For every path \<open>[hardened 44, hardened s, hardened i, 0, 0]\<close>, where
  \<open>s\<close> is the coin type of Ethereum and \<open>i\<close> an account index below \<open>2 ^ 31\<close>, the
  classifier, called directly or through \<open>describePath\<close> for the coin \<^verbatim>\<open>Ethereum\<close>,
  returns a known whole-account description with account index \<open>i\<close>, coin
  \<^verbatim>\<open>Ethereum\<close>, \<open>isPrefork\<close> false, and the verbose string \<^verbatim>\<open>Ethereum Account #\<close> followed
  by \<open>i\<close> in decimal.
\<close>

theorem ethDescribeLedgerPath_account:
  assumes "slip44ByCoin c ''Ethereum'' = Num s" and "0 \<le> i" and "i < 2 ^ 31"
  shows "ethDescribeLedgerPath c [Num (hardened 44), Num (hardened s), Num (hardened i), Num 0, Num 0] =
           \<lparr>verbose = ''Ethereum Account #'' @ number_toString (Num i), coin = ''Ethereum'',
            isKnown = True, wholeAccount = Some True, accountIdx = Some (Num i),
            isPrefork = Some False\<rparr> \<and>
         describePath c \<lparr>path = [Num (hardened 44), Num (hardened s), Num (hardened i), Num 0, Num 0],
                          coin = ''Ethereum'', scriptType = st\<rparr> =
           \<lparr>verbose = ''Ethereum Account #'' @ number_toString (Num i), coin = ''Ethereum'',
            isKnown = True, wholeAccount = Some True, accountIdx = Some (Num i),
            isPrefork = Some False\<rparr>"
proof -
  have low: "toLowerCase ''Ethereum'' = ''ethereum''"
    by code_simp
  have b: "bit (hardened i) 31" and m: "hardened i mod 2 ^ 31 = i"
    using assms(2,3) by (simp_all add: bit31_hardened hardened_mod)
  show ?thesis
    using classify5 [OF assms(1), of "hardened i"] b m by (simp add: describePath_def low)
qed


theorem ethDescribeLedgerPath_account_witness:
  "(slip44ByCoin spec_core ''Ethereum'' = Num 60 \<and> (0::int) \<le> 1 \<and> (1::int) < 2 ^ 31) \<and>
   ethDescribeLedgerPath spec_core [Num (hardened 44), Num (hardened 60), Num (hardened 1), Num 0, Num 0] =
     \<lparr>verbose = ''Ethereum Account #1'', coin = ''Ethereum'', isKnown = True,
      wholeAccount = Some True, accountIdx = Some (Num 1), isPrefork = Some False\<rparr>"
proof -
  have s: "slip44ByCoin spec_core ''Ethereum'' = Num 60"
    by (simp add: spec_core_def core0_def)
  have d: "number_toString (Num 1) = ''1''" by code_simp
  show ?thesis using ethDescribeLedgerPath_account [OF s, of 1 None] s d by simp
qed

text \<open>
  C1 as stated has the verbose string \<^verbatim>\<open>Account #\<close> followed by the index. At account 1
  the verbose string is \<^verbatim>\<open>Ethereum Account #1\<close>.
\<close>

theorem ethDescribeLedgerPath_verbose_counterexample:
  "verbose (ethDescribeLedgerPath spec_core
      [Num (hardened 44), Num (hardened 60), Num (hardened 1), Num 0, Num 0]) = ''Ethereum Account #1'' \<and>
   accountIdx (ethDescribeLedgerPath spec_core
      [Num (hardened 44), Num (hardened 60), Num (hardened 1), Num 0, Num 0]) = Some (Num 1) \<and>
   ''Ethereum Account #1'' \<noteq> ''Account #'' @ number_toString (Num 1)"
  by code_simp

text \<open>
  C2. For a path of length 4 that starts with \<open>hardened 44\<close> and the hardened coin type
  of Ethereum, the classifier returns a known whole-account description whose account
  index is element 3 exactly when element 2 is the literal \<^verbatim>\<open>0x80000000\<close> and element 3
  is not hardened; in every other case the description is unknown.
\<close>

theorem ethDescribeLedgerPath_length4:
  assumes "slip44ByCoin c ''Ethereum'' = Num s"
  shows "(isKnown (ethDescribeLedgerPath c [Num (hardened 44), Num (hardened s), p2, p3]) \<and>
          wholeAccount (ethDescribeLedgerPath c [Num (hardened 44), Num (hardened s), p2, p3]) = Some True \<and>
          accountIdx (ethDescribeLedgerPath c [Num (hardened 44), Num (hardened s), p2, p3]) = Some p3
          \<longleftrightarrow> p2 = Num 0x80000000 \<and> \<not> is_hardened p3) \<and>
         (\<not> (p2 = Num 0x80000000 \<and> \<not> is_hardened p3) \<longrightarrow>
          \<not> isKnown (ethDescribeLedgerPath c [Num (hardened 44), Num (hardened s), p2, p3]))"
  by (simp add: classify4 [OF assms])


theorem ethDescribeLedgerPath_length4_witness:
  "slip44ByCoin spec_core ''Ethereum'' = Num 60 \<and>
   isKnown (ethDescribeLedgerPath spec_core
     [Num (hardened 44), Num (hardened 60), Num 0x80000000, Num 3]) \<and>
   accountIdx (ethDescribeLedgerPath spec_core
     [Num (hardened 44), Num (hardened 60), Num 0x80000000, Num 3]) = Some (Num 3) \<and>
   \<not> isKnown (ethDescribeLedgerPath spec_core
     [Num (hardened 44), Num (hardened 60), Num (hardened 1), Num 3])"
proof -
  have s: "slip44ByCoin spec_core ''Ethereum'' = Num 60"
    by (simp add: spec_core_def core0_def)
  have u: "\<not> is_hardened (Num 3)"
    using bit31_iff [of 3] by (simp add: is_hardened_def)
  show ?thesis
    using ethDescribeLedgerPath_length4 [OF s, of "Num 0x80000000" "Num 3"]
      ethDescribeLedgerPath_length4 [OF s, of "Num (hardened 1)" "Num 3"] s u
    by (simp add: hardened_def)
qed

text \<open>
  C3. A path that breaks a structural rule of the EVM scheme (a length other than 4
  and 5, a first element other than \<open>hardened 44\<close>, a second element other than the
  hardened coin type, a third element that is not hardened, a length-5 suffix other than
  \<open>[0, 0]\<close>, or for length 4 a third element other than \<open>hardened 0\<close> or a hardened
  fourth element) is classified unknown, with coin \<^verbatim>\<open>Ethereum\<close> and the canonical BIP32
  string of the path as its verbose string.
\<close>

theorem ethDescribeLedgerPath_unknown:
  assumes "slip44ByCoin c ''Ethereum'' = Num s" and "violates_evm_scheme s p"
  shows "ethDescribeLedgerPath c p =
           \<lparr>verbose = addressNListToBIP32 c p, coin = ''Ethereum'', isKnown = False,
            wholeAccount = None, accountIdx = None, isPrefork = None\<rparr>"
  using assms
  by (auto simp add: ethDescribeLedgerPath_def Let_def js_eq_Num hardened_test js_add_Num
      hardened_def violates_evm_scheme_def)

theorem ethDescribeLedgerPath_unknown_witness:
  "slip44ByCoin spec_core ''Ethereum'' = Num 60 \<and>
   violates_evm_scheme 60 [Num (hardened 44), Num (hardened 60), Num 3, Num 0, Num 0] \<and>
   ethDescribeLedgerPath spec_core [Num (hardened 44), Num (hardened 60), Num 3, Num 0, Num 0] =
     \<lparr>verbose = addressNListToBIP32 spec_core
                  [Num (hardened 44), Num (hardened 60), Num 3, Num 0, Num 0],
      coin = ''Ethereum'', isKnown = False, wholeAccount = None, accountIdx = None,
      isPrefork = None\<rparr>"
proof -
  have s: "slip44ByCoin spec_core ''Ethereum'' = Num 60"
    by (simp add: spec_core_def core0_def)
  have u: "\<not> is_hardened (Num 3)"
    using bit31_iff [of 3] by (simp add: is_hardened_def)
  have v: "violates_evm_scheme 60 [Num (hardened 44), Num (hardened 60), Num 3, Num 0, Num 0]"
    using u by (simp add: violates_evm_scheme_def nth_js_def)
  show ?thesis
    using ethDescribeLedgerPath_unknown [OF s v] s v by simp
qed

text \<open>
  C10. \<open>describePath\<close> takes the Ledger classifier exactly when the coin of the query
  equals \<^verbatim>\<open>ethereum\<close> up to case, so for \<^verbatim>\<open>Ethereum\<close>, \<^verbatim>\<open>ETHEREUM\<close> and \<^verbatim>\<open>ethereum\<close>, and
  hands every other query to the generic classifier of hdwallet-core.
\<close>

theorem describePath_routing:
  "describePath c msg =
     (if equal_ignoring_case (DescribePath.coin msg) ''ethereum''
      then ethDescribeLedgerPath c (path msg)
      else core.describePath c msg) \<and>
   (DescribePath.coin msg \<in> {''Ethereum'', ''ETHEREUM'', ''ethereum''} \<longrightarrow>
      describePath c msg = ethDescribeLedgerPath c (path msg))"
proof -
  have iff: "\<And>s. toLowerCase s = ''ethereum'' \<longleftrightarrow> equal_ignoring_case s ''ethereum''"
    using toLowerCase_iff [OF ethereum_lower] .
  have "toLowerCase ''Ethereum'' = ''ethereum''" "toLowerCase ''ETHEREUM'' = ''ethereum''"
       "toLowerCase ''ethereum'' = ''ethereum''"
    by code_simp+
  then show ?thesis unfolding describePath_def iff [symmetric] by auto
qed

theorem describePath_routing_witness:
  "describePath spec_core \<lparr>path = [Num (hardened 44), Num (hardened 60), Num (hardened 0), Num 3],
       coin = ''ETHEREUM'', scriptType = None\<rparr> =
     ethDescribeLedgerPath spec_core [Num (hardened 44), Num (hardened 60), Num (hardened 0), Num 3] \<and>
   describePath spec_core \<lparr>path = [Num (hardened 44), Num (hardened 0), Num (hardened 0)],
       coin = ''Bitcoin'', scriptType = None\<rparr> =
     core.describePath spec_core \<lparr>path = [Num (hardened 44), Num (hardened 0), Num (hardened 0)],
       coin = ''Bitcoin'', scriptType = None\<rparr>"
proof -
  have "\<not> equal_ignoring_case ''Bitcoin'' ''ethereum''"
    by (simp add: equal_ignoring_case_def)
  moreover have "equal_ignoring_case ''ETHEREUM'' ''ethereum''"
    by code_simp
  ultimately show ?thesis
    using describePath_routing [of spec_core "\<lparr>path = [Num (hardened 44), Num (hardened 60), Num (hardened 0), Num 3],
       coin = ''ETHEREUM'', scriptType = None\<rparr>"]
      describePath_routing [of spec_core "\<lparr>path = [Num (hardened 44), Num (hardened 0), Num (hardened 0)],
       coin = ''Bitcoin'', scriptType = None\<rparr>"]
    by simp
qed

section \<open>The account path enumerators\<close>

lemma ethNext_whole:
  assumes cat: "h ! ETHAccountPath.hardenedPath msg @ h ! relPath msg = p"
    and len: "2 < length p" and el: "p ! 2 = Num n"
    and known: "isKnown (core.ethDescribePath c p)"
      "wholeAccount (core.ethDescribePath c p) = Some True"
  shows "ethNextAccountPath c msg h =
    (Some (msg\<lparr>ETHAccountPath.addressNList := length h,
                  ETHAccountPath.hardenedPath := Suc (length h),
                  relPath := Suc (Suc (length h))\<rparr>),
     h @ [p[2 := Num (n + 1)], core.hardenedPath c (p[2 := Num (n + 1)]),
          core.relativePath c (p[2 := Num (n + 1)])])"
  using assms
  by (simp add: ethNextAccountPath_def alloc_def incr_at_def assign_js_def nth_js_def
      js_add_def Let_def nth_append)

lemma ethNextAccountPath_frame:
  assumes "ethNextAccountPath c msg h = (r, h')" and "a < length h"
  shows "h' ! a = h ! a \<and> length h \<le> length h'"
  using assms
  by (auto simp add: ethNextAccountPath_def alloc_def incr_at_def Let_def nth_append
      split: if_splits prod.splits)

lemma ethNextAccountPath_fresh:
  assumes "ethNextAccountPath c msg h = (Some r, h')"
  shows "length h \<le> ETHAccountPath.hardenedPath r \<and> length h \<le> relPath r"
  using assms
  by (auto simp add: ethNextAccountPath_def alloc_def incr_at_def Let_def
      split: if_splits prod.splits)


text \<open>
  C4. The claim is that neither enumerator changes the arrays of its input and that a
  returned path is a new value. \<open>ethNextAccountPath\<close> works on the array that \<^verbatim>\<open>concat\<close>
  allocates and leaves every array of the store as it was
  (\<open>ethNextAccountPath_frame\<close>, \<open>ethNextAccountPath_fresh\<close>). \<open>btcNextAccountPath\<close>
  does not: on the first account of Bitcoin the array at the input's \<open>addressNList\<close>
  holds account 1 after the call, and the returned path holds the same array.
\<close>

theorem btcNextAccountPath_mutates_input:
  "fst (btcNextAccountPath spec_core
     \<lparr>BTCAccountPath.coin = ''Bitcoin'', scriptType = ''p2pkh'', addressNList = 0\<rparr>
     [[Num (hardened 44), Num (hardened 0), Num (hardened 0), Num 0, Num 0]]) =
     Some \<lparr>BTCAccountPath.coin = ''Bitcoin'', scriptType = ''p2pkh'', addressNList = 0\<rparr> \<and>
   [[Num (hardened 44), Num (hardened 0), Num (hardened 0), Num 0, Num 0]] ! 0 =
     [Num (hardened 44), Num (hardened 0), Num (hardened 0), Num 0, Num 0] \<and>
   snd (btcNextAccountPath spec_core
     \<lparr>BTCAccountPath.coin = ''Bitcoin'', scriptType = ''p2pkh'', addressNList = 0\<rparr>
     [[Num (hardened 44), Num (hardened 0), Num (hardened 0), Num 0, Num 0]]) ! 0 =
     [Num (hardened 44), Num (hardened 0), Num (hardened 1), Num 0, Num 0] \<and>
   [Num (hardened 44), Num (hardened 0), Num (hardened 1), Num 0, Num 0] \<noteq>
     [Num (hardened 44), Num (hardened 0), Num (hardened 0), Num 0, Num 0]"
  by code_simp

text \<open>
  C5 (as amended). For every message, \<open>btcNextAccountPath\<close> classifies the path of
  the message first and returns nothing, leaving the store as it was, when the path is
  unknown, and also when the path is known and its first element is none of
  \<open>hardened 44\<close>, \<open>hardened 49\<close> and \<open>hardened 84\<close>. When the path is known, starts
  with one of these three and has a 32-bit unsigned integer as element 2, it returns the
  message with its coin and script type, and element 2 of its path is greater by
  exactly 1; the new element is again a hardened 32-bit element provided the old one
  was hardened and was not \<^verbatim>\<open>0xffffffff\<close>.
\<close>

theorem btcNextAccountPath_increment:
  "(\<not> isKnown (core.btcDescribePath c (h ! BTCAccountPath.addressNList msg)
            (BTCAccountPath.coin msg) (BTCAccountPath.scriptType msg)) \<longrightarrow>
      btcNextAccountPath c msg h = (None, h)) \<and>
   (isKnown (core.btcDescribePath c (h ! BTCAccountPath.addressNList msg)
            (BTCAccountPath.coin msg) (BTCAccountPath.scriptType msg)) \<and>
    \<not> (nth_js (h ! BTCAccountPath.addressNList msg) 0 = Num (hardened 44) \<or>
       nth_js (h ! BTCAccountPath.addressNList msg) 0 = Num (hardened 49) \<or>
       nth_js (h ! BTCAccountPath.addressNList msg) 0 = Num (hardened 84)) \<longrightarrow>
      btcNextAccountPath c msg h = (None, h)) \<and>
   (isKnown (core.btcDescribePath c (h ! BTCAccountPath.addressNList msg)
            (BTCAccountPath.coin msg) (BTCAccountPath.scriptType msg)) \<and>
    (nth_js (h ! BTCAccountPath.addressNList msg) 0 = Num (hardened 44) \<or>
     nth_js (h ! BTCAccountPath.addressNList msg) 0 = Num (hardened 49) \<or>
     nth_js (h ! BTCAccountPath.addressNList msg) 0 = Num (hardened 84)) \<and>
    BTCAccountPath.addressNList msg < length h \<and>
    2 < length (h ! BTCAccountPath.addressNList msg) \<and>
    h ! BTCAccountPath.addressNList msg ! 2 = Num n \<and> is_uint32 (Num n) \<longrightarrow>
      btcNextAccountPath c msg h =
        (Some msg,
         h[BTCAccountPath.addressNList msg :=
             (h ! BTCAccountPath.addressNList msg)[2 := Num (n + 1)]]) \<and>
      (is_hardened (Num n) \<and> n \<noteq> 0xffffffff \<longrightarrow>
         is_hardened (Num (n + 1)) \<and> is_uint32 (Num (n + 1))))"
proof -
  let ?a = "BTCAccountPath.addressNList msg"
  have none: "\<not> isKnown (core.btcDescribePath c (h ! ?a)
            (BTCAccountPath.coin msg) (BTCAccountPath.scriptType msg)) \<longrightarrow>
      btcNextAccountPath c msg h = (None, h)"
    by (simp add: btcNextAccountPath_def Let_def)
  have other: "isKnown (core.btcDescribePath c (h ! ?a)
            (BTCAccountPath.coin msg) (BTCAccountPath.scriptType msg)) \<and>
    \<not> (nth_js (h ! ?a) 0 = Num (hardened 44) \<or> nth_js (h ! ?a) 0 = Num (hardened 49) \<or>
       nth_js (h ! ?a) 0 = Num (hardened 84)) \<longrightarrow>
      btcNextAccountPath c msg h = (None, h)"
    by (simp add: btcNextAccountPath_def Let_def hardened_def js_eq_Num)
  have inc: "?a < length h \<and> 2 < length (h ! ?a) \<and> h ! ?a ! 2 = Num n \<longrightarrow>
      incr_at h ?a 2 = h[?a := (h ! ?a)[2 := Num (n + 1)]]"
    by (simp add: incr_at_def assign_js_def nth_js_def js_add_def)
  have stay: "is_uint32 (Num n) \<longrightarrow> is_hardened (Num n) \<and> n \<noteq> 0xffffffff \<longrightarrow>
      is_hardened (Num (n + 1)) \<and> is_uint32 (Num (n + 1))"
  proof (intro impI)
    assume u: "is_uint32 (Num n)" and a: "is_hardened (Num n) \<and> n \<noteq> 0xffffffff"
    have r: "0 \<le> n" "n < 4294967296" "n \<noteq> 4294967295"
      using u a by (simp_all add: is_uint32_def)
    have "2147483648 \<le> n" using a r bit31_iff [of n] by (simp add: is_hardened_def)
    then have "bit (n + 1) 31" using r bit31_iff [of "n + 1"] by simp
    then show "is_hardened (Num (n + 1)) \<and> is_uint32 (Num (n + 1))"
      using r by (simp add: is_hardened_def is_uint32_def)
  qed
  have some: "isKnown (core.btcDescribePath c (h ! ?a)
            (BTCAccountPath.coin msg) (BTCAccountPath.scriptType msg)) \<and>
    (nth_js (h ! ?a) 0 = Num (hardened 44) \<or> nth_js (h ! ?a) 0 = Num (hardened 49) \<or>
     nth_js (h ! ?a) 0 = Num (hardened 84)) \<and>
    ?a < length h \<and> 2 < length (h ! ?a) \<and> h ! ?a ! 2 = Num n \<and> is_uint32 (Num n) \<longrightarrow>
      btcNextAccountPath c msg h = (Some msg, h[?a := (h ! ?a)[2 := Num (n + 1)]]) \<and>
      (is_hardened (Num n) \<and> n \<noteq> 0xffffffff \<longrightarrow>
         is_hardened (Num (n + 1)) \<and> is_uint32 (Num (n + 1)))"
    using inc stay
    by (simp add: btcNextAccountPath_def Let_def hardened_def js_eq_Num)
  show ?thesis using none other some by (intro conjI)
qed

theorem btcNextAccountPath_increment_witness:
  "(isKnown (core.btcDescribePath spec_core
      [Num (hardened 44), Num (hardened 0), Num (hardened 0), Num 0, Num 0] ''Bitcoin'' ''p2pkh'') \<and>
    nth_js [Num (hardened 44), Num (hardened 0), Num (hardened 0), Num 0, Num 0] 0 =
      Num (hardened 44) \<and>
    BTCAccountPath.addressNList
      \<lparr>BTCAccountPath.coin = ''Bitcoin'', scriptType = ''p2pkh'', addressNList = 0\<rparr>
      < length [[Num (hardened 44), Num (hardened 0), Num (hardened 0), Num 0, Num 0]] \<and>
    (2::nat) < length [Num (hardened 44), Num (hardened 0), Num (hardened 0), Num 0, Num 0] \<and>
    is_uint32 (Num (hardened 0)) \<and> is_hardened (Num (hardened 0)) \<and>
    hardened 0 \<noteq> 0xffffffff) \<and>
   btcNextAccountPath spec_core
     \<lparr>BTCAccountPath.coin = ''Bitcoin'', scriptType = ''p2pkh'', addressNList = 0\<rparr>
     [[Num (hardened 44), Num (hardened 0), Num (hardened 0), Num 0, Num 0]] =
     (Some \<lparr>BTCAccountPath.coin = ''Bitcoin'', scriptType = ''p2pkh'', addressNList = 0\<rparr>,
      [[Num (hardened 44), Num (hardened 0), Num (hardened 1), Num 0, Num 0]]) \<and>
   is_hardened (Num (hardened 1)) \<and> is_uint32 (Num (hardened 1)) \<and>
   \<not> isKnown (core.btcDescribePath spec_core [Num 1, Num 2] ''Bitcoin'' ''p2pkh'') \<and>
   btcNextAccountPath spec_core
     \<lparr>BTCAccountPath.coin = ''Bitcoin'', scriptType = ''p2pkh'', addressNList = 0\<rparr>
     [[Num 1, Num 2]] = (None, [[Num 1, Num 2]])"
proof -
  have k: "isKnown (core.btcDescribePath spec_core
      [Num (hardened 44), Num (hardened 0), Num (hardened 0), Num 0, Num 0] ''Bitcoin'' ''p2pkh'')"
    by code_simp
  have h: "is_uint32 (Num (hardened 0)) \<and> is_hardened (Num (hardened 0)) \<and>
      hardened 0 \<noteq> 0xffffffff"
    by code_simp
  have u: "\<not> isKnown (core.btcDescribePath spec_core [Num 1, Num 2] ''Bitcoin'' ''p2pkh'')"
    by code_simp
  show ?thesis
    using btcNextAccountPath_increment [of spec_core
        "[[Num (hardened 44), Num (hardened 0), Num (hardened 0), Num 0, Num 0]]"
        "\<lparr>BTCAccountPath.coin = ''Bitcoin'', scriptType = ''p2pkh'', addressNList = 0\<rparr>"
        "hardened 0"]
      btcNextAccountPath_increment [of spec_core "[[Num 1, Num 2]]"
        "\<lparr>BTCAccountPath.coin = ''Bitcoin'', scriptType = ''p2pkh'', addressNList = 0\<rparr>" 0]
      k h u
    by (simp add: nth_js_def hardened_def)
qed

text \<open>
  C5 as stated has the incremented element remain hardened for every path. At the last
  account index, \<^verbatim>\<open>0xffffffff\<close>, the incremented element is \<^verbatim>\<open>0x100000000\<close>: it is no
  32-bit element, and the hardened test of \<^verbatim>\<open>ledger.ts\<close> rejects it.
\<close>

theorem btcNextAccountPath_overflow_counterexample:
  "isKnown (core.btcDescribePath spec_core
      [Num (hardened 44), Num (hardened 0), Num 0xffffffff, Num 0, Num 0] ''Bitcoin'' ''p2pkh'') \<and>
   is_hardened (Num 0xffffffff) \<and> is_uint32 (Num 0xffffffff) \<and>
   btcNextAccountPath spec_core
     \<lparr>BTCAccountPath.coin = ''Bitcoin'', scriptType = ''p2pkh'', addressNList = 0\<rparr>
     [[Num (hardened 44), Num (hardened 0), Num 0xffffffff, Num 0, Num 0]] =
     (Some \<lparr>BTCAccountPath.coin = ''Bitcoin'', scriptType = ''p2pkh'', addressNList = 0\<rparr>,
      [[Num (hardened 44), Num (hardened 0), Num 0x100000000, Num 0, Num 0]]) \<and>
   \<not> is_hardened (Num 0x100000000) \<and> \<not> is_uint32 (Num 0x100000000) \<and>
   \<not> js_eq (band_u32 (Num 0x100000000) (Num 0x80000000)) (Num 0x80000000)"
  by code_simp

text \<open>
  C6 (as amended). Let the concatenation of \<open>hardenedPath\<close> and \<open>relPath\<close> be the
  five-element path \<open>[hardened 44, hardened s, hardened i, 0, 0]\<close> with \<open>i + 1 < 2 ^ 31\<close>,
  let the classifier of hdwallet-core report it as a known whole account, and let the
  split of hdwallet-core cut the new path into two parts that concatenate to it. Then
  \<open>ethNextAccountPath\<close> returns a path whose combined path has element 2 incremented by
  1, whose \<open>hardenedPath\<close> and \<open>relPath\<close> are the split of that new path, and whose
  concatenation \<open>ethDescribeLedgerPath\<close> classifies as a known whole account with
  account index \<open>i + 1\<close>, the account index of the input being \<open>i\<close>.
\<close>

theorem ethNextAccountPath_round_trip:
  assumes refs: "ETHAccountPath.hardenedPath msg < length h" "relPath msg < length h"
    and cat: "h ! ETHAccountPath.hardenedPath msg @ h ! relPath msg =
                  [Num (hardened 44), Num (hardened s), Num (hardened i), Num 0, Num 0]"
    and slip: "slip44ByCoin c ''Ethereum'' = Num s"
    and i: "0 \<le> i" "i + 1 < 2 ^ 31"
    and known:
      "isKnown (core.ethDescribePath c
         [Num (hardened 44), Num (hardened s), Num (hardened i), Num 0, Num 0])"
      "wholeAccount (core.ethDescribePath c
         [Num (hardened 44), Num (hardened s), Num (hardened i), Num 0, Num 0]) = Some True"
    and split:
      "core.hardenedPath c [Num (hardened 44), Num (hardened s), Num (hardened (i + 1)), Num 0, Num 0] @
       core.relativePath c [Num (hardened 44), Num (hardened s), Num (hardened (i + 1)), Num 0, Num 0] =
       [Num (hardened 44), Num (hardened s), Num (hardened (i + 1)), Num 0, Num 0]"
  shows
    "accountIdx (ethDescribeLedgerPath c
        [Num (hardened 44), Num (hardened s), Num (hardened i), Num 0, Num 0]) = Some (Num i) \<and>
     (case ethNextAccountPath c msg h of
        (Some r, h') \<Rightarrow>
          h' ! ETHAccountPath.addressNList r =
            [Num (hardened 44), Num (hardened s), Num (hardened (i + 1)), Num 0, Num 0] \<and>
          h' ! ETHAccountPath.hardenedPath r =
            core.hardenedPath c
              [Num (hardened 44), Num (hardened s), Num (hardened (i + 1)), Num 0, Num 0] \<and>
          h' ! relPath r =
            core.relativePath c
              [Num (hardened 44), Num (hardened s), Num (hardened (i + 1)), Num 0, Num 0] \<and>
          isKnown (ethDescribeLedgerPath c (h' ! ETHAccountPath.hardenedPath r @ h' ! relPath r)) \<and>
          wholeAccount (ethDescribeLedgerPath c (h' ! ETHAccountPath.hardenedPath r @ h' ! relPath r)) =
            Some True \<and>
          accountIdx (ethDescribeLedgerPath c (h' ! ETHAccountPath.hardenedPath r @ h' ! relPath r)) =
            Some (Num (i + 1))
      | (None, h') \<Rightarrow> False)"
proof -
  let ?p = "[Num (hardened 44), Num (hardened s), Num (hardened i), Num 0, Num 0]"
  let ?q = "[Num (hardened 44), Num (hardened s), Num (hardened (i + 1)), Num 0, Num 0]"
  have q: "?p[2 := Num (hardened i + 1)] = ?q" by (simp add: hardened_def)
  have nxt: "ethNextAccountPath c msg h =
    (Some (msg\<lparr>ETHAccountPath.addressNList := length h,
                  ETHAccountPath.hardenedPath := Suc (length h),
                  relPath := Suc (Suc (length h))\<rparr>),
     h @ [?q, core.hardenedPath c ?q, core.relativePath c ?q])"
    using ethNext_whole [OF cat _ _ known, of "hardened i"] q by simp
  have b0: "bit (hardened i) 31" and m0: "hardened i mod 2 ^ 31 = i"
    using i by (simp_all add: bit31_hardened hardened_mod)
  have b1: "bit (hardened (i + 1)) 31" and m1: "hardened (i + 1) mod 2 ^ 31 = i + 1"
    using i by (simp_all add: bit31_hardened hardened_mod)
  have d0: "accountIdx (ethDescribeLedgerPath c ?p) = Some (Num i)"
    using classify5 [OF slip, of "hardened i"] b0 m0 by simp
  have d1: "ethDescribeLedgerPath c ?q =
      \<lparr>verbose = ''Ethereum Account #'' @ number_toString (Num (i + 1)),
       coin = ''Ethereum'', isKnown = True, wholeAccount = Some True,
       accountIdx = Some (Num (i + 1)), isPrefork = Some False\<rparr>"
    using classify5 [OF slip, of "hardened (i + 1)"] b1 m1 by simp
  show ?thesis
    using d0 d1 split by (simp add: nxt nth_append)
qed


theorem ethNextAccountPath_round_trip_witness:
  "(ETHAccountPath.hardenedPath \<lparr>ETHAccountPath.addressNList = 0, hardenedPath = 1, relPath = 2\<rparr> < 3 \<and>
    relPath \<lparr>ETHAccountPath.addressNList = 0, hardenedPath = 1, relPath = 2\<rparr> < 3 \<and>
    [[Num (hardened 44), Num (hardened 60), Num (hardened 0), Num 0, Num 0],
     [Num (hardened 44), Num (hardened 60), Num (hardened 0)], [Num 0, Num 0]] ! 1 @
    [[Num (hardened 44), Num (hardened 60), Num (hardened 0), Num 0, Num 0],
     [Num (hardened 44), Num (hardened 60), Num (hardened 0)], [Num 0, Num 0]] ! 2 =
      [Num (hardened 44), Num (hardened 60), Num (hardened 0), Num 0, Num 0] \<and>
    slip44ByCoin spec_core ''Ethereum'' = Num 60 \<and> (0::int) + 1 < 2 ^ 31 \<and>
    isKnown (core.ethDescribePath spec_core
      [Num (hardened 44), Num (hardened 60), Num (hardened 0), Num 0, Num 0]) \<and>
    wholeAccount (core.ethDescribePath spec_core
      [Num (hardened 44), Num (hardened 60), Num (hardened 0), Num 0, Num 0]) = Some True \<and>
    core.hardenedPath spec_core
      [Num (hardened 44), Num (hardened 60), Num (hardened 1), Num 0, Num 0] @
    core.relativePath spec_core
      [Num (hardened 44), Num (hardened 60), Num (hardened 1), Num 0, Num 0] =
      [Num (hardened 44), Num (hardened 60), Num (hardened 1), Num 0, Num 0]) \<and>
   (case ethNextAccountPath spec_core
           \<lparr>ETHAccountPath.addressNList = 0, hardenedPath = 1, relPath = 2\<rparr>
           [[Num (hardened 44), Num (hardened 60), Num (hardened 0), Num 0, Num 0],
            [Num (hardened 44), Num (hardened 60), Num (hardened 0)], [Num 0, Num 0]] of
      (Some r, h') \<Rightarrow>
        h' ! ETHAccountPath.hardenedPath r =
          [Num (hardened 44), Num (hardened 60), Num (hardened 1)] \<and>
        h' ! relPath r = [Num 0, Num 0] \<and>
        accountIdx (ethDescribeLedgerPath spec_core
          (h' ! ETHAccountPath.hardenedPath r @ h' ! relPath r)) = Some (Num 1)
    | (None, h') \<Rightarrow> False)"
proof -
  let ?h = "[[Num (hardened 44), Num (hardened 60), Num (hardened 0), Num 0, Num 0],
     [Num (hardened 44), Num (hardened 60), Num (hardened 0)], [Num 0, Num 0]]"
  let ?msg = "\<lparr>ETHAccountPath.addressNList = 0, hardenedPath = 1, relPath = 2\<rparr>"
  have cat: "?h ! ETHAccountPath.hardenedPath ?msg @ ?h ! relPath ?msg =
      [Num (hardened 44), Num (hardened 60), Num (hardened 0), Num 0, Num 0]"
    by simp
  have slip: "slip44ByCoin spec_core ''Ethereum'' = Num 60"
    by (simp add: spec_core_def core0_def)
  have i: "(0::int) \<le> 0" "(0::int) + 1 < 2 ^ 31" by simp_all
  have known: "isKnown (core.ethDescribePath spec_core
      [Num (hardened 44), Num (hardened 60), Num (hardened 0), Num 0, Num 0])"
    "wholeAccount (core.ethDescribePath spec_core
      [Num (hardened 44), Num (hardened 60), Num (hardened 0), Num 0, Num 0]) = Some True"
    by code_simp+
  have hs: "core.hardenedPath spec_core
      [Num (hardened 44), Num (hardened 60), Num (hardened 1), Num 0, Num 0] =
      [Num (hardened 44), Num (hardened 60), Num (hardened 1)]"
    and rs: "core.relativePath spec_core
      [Num (hardened 44), Num (hardened 60), Num (hardened 1), Num 0, Num 0] = [Num 0, Num 0]"
    by code_simp+
  have split: "core.hardenedPath spec_core
      [Num (hardened 44), Num (hardened 60), Num (hardened (0 + 1)), Num 0, Num 0] @
    core.relativePath spec_core
      [Num (hardened 44), Num (hardened 60), Num (hardened (0 + 1)), Num 0, Num 0] =
      [Num (hardened 44), Num (hardened 60), Num (hardened (0 + 1)), Num 0, Num 0]"
    using hs rs by simp
  show ?thesis
    using ethNextAccountPath_round_trip [OF _ _ cat slip i known split] slip known hs rs
    by (auto split: prod.splits option.splits)
qed

text \<open>
  C6 as stated covers every path that classifies as a known whole account. It fails at
  the last account index, where the incremented element \<^verbatim>\<open>0x100000000\<close> is not hardened
  and the result is unknown, and for the four-element form
  \<open>[hardened 44, hardened 60, hardened 0, 3]\<close>, where element 2 becomes \<open>hardened 1\<close>
  and the result is unknown as well.
\<close>

theorem ethNextAccountPath_round_trip_counterexample:
  "(isKnown (core.ethDescribePath spec_core
       [Num (hardened 44), Num (hardened 60), Num 0xffffffff, Num 0, Num 0]) \<and>
    wholeAccount (core.ethDescribePath spec_core
       [Num (hardened 44), Num (hardened 60), Num 0xffffffff, Num 0, Num 0]) = Some True \<and>
    accountIdx (ethDescribeLedgerPath spec_core
       [Num (hardened 44), Num (hardened 60), Num 0xffffffff, Num 0, Num 0]) = Some (Num 0x7fffffff) \<and>
    (case ethNextAccountPath spec_core
            \<lparr>ETHAccountPath.addressNList = 0, hardenedPath = 1, relPath = 2\<rparr>
            [[Num (hardened 44), Num (hardened 60), Num 0xffffffff, Num 0, Num 0],
             [Num (hardened 44), Num (hardened 60), Num 0xffffffff], [Num 0, Num 0]] of
       (Some r, h') \<Rightarrow>
         h' ! ETHAccountPath.hardenedPath r @ h' ! relPath r =
           [Num (hardened 44), Num (hardened 60), Num 0x100000000, Num 0, Num 0] \<and>
         \<not> isKnown (ethDescribeLedgerPath spec_core
              (h' ! ETHAccountPath.hardenedPath r @ h' ! relPath r)) \<and>
         accountIdx (ethDescribeLedgerPath spec_core
              (h' ! ETHAccountPath.hardenedPath r @ h' ! relPath r)) \<noteq> Some (Num (0x7fffffff + 1))
     | (None, h') \<Rightarrow> False)) \<and>
   (isKnown (core.ethDescribePath spec_core
       [Num (hardened 44), Num (hardened 60), Num (hardened 0), Num 3]) \<and>
    wholeAccount (core.ethDescribePath spec_core
       [Num (hardened 44), Num (hardened 60), Num (hardened 0), Num 3]) = Some True \<and>
    accountIdx (ethDescribeLedgerPath spec_core
       [Num (hardened 44), Num (hardened 60), Num (hardened 0), Num 3]) = Some (Num 3) \<and>
    (case ethNextAccountPath spec_core
            \<lparr>ETHAccountPath.addressNList = 0, hardenedPath = 1, relPath = 2\<rparr>
            [[Num (hardened 44), Num (hardened 60), Num (hardened 0), Num 3],
             [Num (hardened 44), Num (hardened 60), Num (hardened 0)], [Num 3]] of
       (Some r, h') \<Rightarrow>
         h' ! ETHAccountPath.hardenedPath r @ h' ! relPath r =
           [Num (hardened 44), Num (hardened 60), Num (hardened 1), Num 3] \<and>
         \<not> isKnown (ethDescribeLedgerPath spec_core
              (h' ! ETHAccountPath.hardenedPath r @ h' ! relPath r)) \<and>
         accountIdx (ethDescribeLedgerPath spec_core
              (h' ! ETHAccountPath.hardenedPath r @ h' ! relPath r)) \<noteq> Some (Num (3 + 1))
     | (None, h') \<Rightarrow> False))"
  by code_simp


section \<open>The application guard and the dispatcher\<close>

lemma call_checked_ok:
  assumes "call tr None m [] t = (Inr res, t')" and "handleError u res = None"
  shows "call_checked u tr m t = (Inr res, t')"
  using assms by (simp add: call_checked_def await_def)

lemma call_checked_state:
  "snd (call_checked u tr m t) = snd (call tr None m [] t)"
  by (simp add: call_checked_def await_def split: prod.splits sum.splits option.splits)

lemma btcApps_iff:
  "Some nm \<in> f ` set xs \<longleftrightarrow> (\<exists>cn \<in> set xs. f cn = Some nm)"
  by force

lemma validate_state:
  "snd (validateCurrentApp u tr cn t) = t \<or>
   snd (validateCurrentApp u tr cn t) = snd (call tr None ''getAppAndVersion'' [] t)"
  using call_checked_state [of u tr "''getAppAndVersion''" t]
  by (auto simp add: validateCurrentApp_def await_def Let_def split: option.splits prod.splits sum.splits)

text \<open>
  C7. Let the coin be given and bound to a non-empty application name, and let the
  device answer \<^verbatim>\<open>getAppAndVersion\<close> with a response that \<^verbatim>\<open>handleError\<close> accepts. Then
  \<open>validateCurrentApp\<close> fails with \<open>WrongApp\<close>, carrying the vendor \<^verbatim>\<open>Ledger\<close> and the
  bound name, exactly when the reported name is not the bound name as a string; it
  succeeds exactly when the two are equal, and it fails in no other way.
\<close>

theorem validateCurrentApp_wrong_app:
  assumes "cn \<noteq> []" and "coinToLedgerAppName u cn = Some app" and "app \<noteq> []"
    and "call tr None ''getAppAndVersion'' [] t = (Inr res, t')"
    and "handleError u res = None"
  shows "(validateCurrentApp u tr (Some cn) t = (Inl (WrongApp ''Ledger'' app), t')
            \<longleftrightarrow> name (payload res) \<noteq> app) \<and>
         (validateCurrentApp u tr (Some cn) t = (Inr (), t') \<longleftrightarrow> name (payload res) = app) \<and>
         ((\<exists>e. fst (validateCurrentApp u tr (Some cn) t) = Inl e) \<longleftrightarrow> name (payload res) \<noteq> app)"
  using assms call_checked_ok [OF assms(4,5)]
  by (simp add: validateCurrentApp_def await_def Let_def)

theorem validateCurrentApp_wrong_app_witness:
  "(''Ethereum'' \<noteq> [] \<and> coinToLedgerAppName utils0 ''Ethereum'' = Some ''Ethereum'' \<and>
    call (device_running ''Bitcoin'') None ''getAppAndVersion'' [] [] =
      (Inr \<lparr>success = True, payload = \<lparr>name = ''Bitcoin''\<rparr>\<rparr>, [''getAppAndVersion'']) \<and>
    handleError utils0 \<lparr>success = True, payload = \<lparr>name = ''Bitcoin''\<rparr>\<rparr> = None) \<and>
   validateCurrentApp utils0 (device_running ''Bitcoin'') (Some ''Ethereum'') [] =
     (Inl (WrongApp ''Ledger'' ''Ethereum''), [''getAppAndVersion''])"
proof -
  have a: "''Ethereum'' \<noteq> []" by simp
  have b: "coinToLedgerAppName utils0 ''Ethereum'' = Some ''Ethereum''"
    by (simp add: utils0_def)
  have c: "call (device_running ''Bitcoin'') None ''getAppAndVersion'' [] [] =
      (Inr \<lparr>success = True, payload = \<lparr>name = ''Bitcoin''\<rparr>\<rparr>, [''getAppAndVersion''])"
    by (simp add: device_running_def)
  have d: "handleError utils0 \<lparr>success = True, payload = \<lparr>name = ''Bitcoin''\<rparr>\<rparr> = None"
    by (simp add: utils0_def)
  show ?thesis
    using validateCurrentApp_wrong_app [OF a b a c d] b c d by simp
qed

text \<open>
  C8. \<open>getPublicKeys\<close> makes one \<^verbatim>\<open>getAppAndVersion\<close> call and, the response accepted,
  hands the whole batch and the session after that call to the UTXO backend when the
  reported name is the application of some supported UTXO coin, else to the EVM backend
  when the name is \<^verbatim>\<open>Ethereum\<close>, and else fails with an error that names the
  application. The requests are of an arbitrary type, of which the dispatcher reads
  nothing.
\<close>

theorem getPublicKeys_dispatch:
  assumes "call tr None ''getAppAndVersion'' [] t = (Inr res, t')"
    and "handleError u res = None"
  shows "getPublicKeys u tr supported btc_backend eth_backend msg t =
           (if \<exists>cn \<in> set supported. coinToLedgerAppName u cn = Some (name (payload res))
            then btc_backend msg t'
            else if name (payload res) = ''Ethereum'' then eth_backend msg t'
            else (Inl (Error (''getPublicKeys is not supported with the '' @ name (payload res) @
                                     '' app'')), t'))"
proof -
  have "getPublicKeys u tr supported btc_backend eth_backend msg t =
           (if Some (name (payload res)) \<in> coinToLedgerAppName u ` set supported
            then btc_backend msg t'
            else if name (payload res) = ''Ethereum'' then eth_backend msg t'
            else (Inl (Error (''getPublicKeys is not supported with the '' @ name (payload res) @
                                     '' app'')), t'))"
    using call_checked_ok [OF assms]
    by (simp add: getPublicKeys_def await_def Let_def)
  then show ?thesis by (simp only: btcApps_iff)
qed

theorem getPublicKeys_dispatch_witness:
  "(call (device_running ''Litecoin'') None ''getAppAndVersion'' [] [] =
      (Inr \<lparr>success = True, payload = \<lparr>name = ''Litecoin''\<rparr>\<rparr>, [''getAppAndVersion'']) \<and>
    handleError utils0 \<lparr>success = True, payload = \<lparr>name = ''Litecoin''\<rparr>\<rparr> = None) \<and>
   getPublicKeys utils0 (device_running ''Litecoin'') [''Bitcoin'', ''Litecoin'']
     (backend0 ''btcGetPublicKeys'') (backend0 ''ethGetPublicKeys'') [''Ethereum'', ''Bitcoin''] [] =
     (Inr ''btcGetPublicKeys'', [''getAppAndVersion'', ''btcGetPublicKeys''])"
proof -
  have c: "call (device_running ''Litecoin'') None ''getAppAndVersion'' [] [] =
      (Inr \<lparr>success = True, payload = \<lparr>name = ''Litecoin''\<rparr>\<rparr>, [''getAppAndVersion''])"
    by (simp add: device_running_def)
  have d: "handleError utils0 \<lparr>success = True, payload = \<lparr>name = ''Litecoin''\<rparr>\<rparr> = None"
    by (simp add: utils0_def)
  show ?thesis
    using getPublicKeys_dispatch [OF c d, of "[''Bitcoin'', ''Litecoin'']" "backend0 ''btcGetPublicKeys''"
        "backend0 ''ethGetPublicKeys''" "[''Ethereum'', ''Bitcoin'']"] c d
    by (simp add: utils0_def backend0_def)
qed

text \<open>
  C9. Each of \<open>btcGetAddress\<close>, \<open>btcSignTx\<close>, \<open>btcSignMessage\<close>, \<open>ethSignTx\<close>,
  \<open>ethGetAddress\<close> and \<open>ethSignMessage\<close> runs \<open>validateCurrentApp\<close> for its coin first.
  When the guard fails, the operation fails with the guard's error and leaves the
  session where the guard left it, whatever the backend is: at the start, or after the
  one \<^verbatim>\<open>getAppAndVersion\<close> call. When the guard succeeds, the operation is the backend
  run on the session the guard left.
\<close>

theorem guard_before_backend:
  "(validateCurrentApp u tr (Some (BTCGetAddress.coin m1)) t = (Inl e, t') \<longrightarrow>
      btcGetAddress u tr b1 m1 t = (Inl e, t')) \<and>
   (validateCurrentApp u tr (Some (BTCGetAddress.coin m1)) t = (Inr (), t') \<longrightarrow>
      btcGetAddress u tr b1 m1 t = b1 m1 t') \<and>
   (validateCurrentApp u tr (Some (BTCSignTxLedger.coin m2)) t = (Inl e, t') \<longrightarrow>
      btcSignTx u tr b2 m2 t = (Inl e, t')) \<and>
   (validateCurrentApp u tr (Some (BTCSignTxLedger.coin m2)) t = (Inr (), t') \<longrightarrow>
      btcSignTx u tr b2 m2 t = b2 m2 t') \<and>
   (validateCurrentApp u tr (Some (BTCSignMessage.coin m3)) t = (Inl e, t') \<longrightarrow>
      btcSignMessage u tr b3 m3 t = (Inl e, t')) \<and>
   (validateCurrentApp u tr (Some (BTCSignMessage.coin m3)) t = (Inr (), t') \<longrightarrow>
      btcSignMessage u tr b3 m3 t = b3 m3 t') \<and>
   (validateCurrentApp u tr (Some ''Ethereum'') t = (Inl e, t') \<longrightarrow>
      ethSignTx u tr b4 m4 t = (Inl e, t') \<and> ethGetAddress u tr b5 m5 t = (Inl e, t') \<and>
      ethSignMessage u tr b6 m6 t = (Inl e, t')) \<and>
   (validateCurrentApp u tr (Some ''Ethereum'') t = (Inr (), t') \<longrightarrow>
      ethSignTx u tr b4 m4 t = b4 m4 t' \<and> ethGetAddress u tr b5 m5 t = b5 m5 t' \<and>
      ethSignMessage u tr b6 m6 t = b6 m6 t') \<and>
   (validateCurrentApp u tr cn t = (Inl e, t') \<longrightarrow>
      t' = t \<or> t' = snd (call tr None ''getAppAndVersion'' [] t))"
  using validate_state [of u tr cn t]
  by (auto simp add: btcGetAddress_def btcSignTx_def btcSignMessage_def ethSignTx_def
      ethGetAddress_def ethSignMessage_def await_def)


theorem guard_before_backend_witness:
  "validateCurrentApp utils0 (device_running ''Ethereum'')
      (Some (BTCGetAddress.coin \<lparr>BTCGetAddress.coin = ''Bitcoin''\<rparr>)) [] =
     (Inl (WrongApp ''Ledger'' ''Bitcoin''), [''getAppAndVersion'']) \<and>
   btcGetAddress utils0 (device_running ''Ethereum'') (backend0 ''btcGetAddress'')
      \<lparr>BTCGetAddress.coin = ''Bitcoin''\<rparr> [] =
     (Inl (WrongApp ''Ledger'' ''Bitcoin''), [''getAppAndVersion'']) \<and>
   validateCurrentApp utils0 (device_running ''Ethereum'') (Some ''Ethereum'') [] =
     (Inr (), [''getAppAndVersion'']) \<and>
   ethSignTx utils0 (device_running ''Ethereum'') (backend0 ''ethSignTx'') ''tx'' [] =
     (Inr ''ethSignTx'', [''getAppAndVersion'', ''ethSignTx''])"
proof -
  have g: "validateCurrentApp utils0 (device_running ''Ethereum'')
      (Some (BTCGetAddress.coin \<lparr>BTCGetAddress.coin = ''Bitcoin''\<rparr>)) [] =
     (Inl (WrongApp ''Ledger'' ''Bitcoin''), [''getAppAndVersion''])"
    by code_simp
  have k: "validateCurrentApp utils0 (device_running ''Ethereum'') (Some ''Ethereum'') [] =
     (Inr (), [''getAppAndVersion''])"
    by code_simp
  show ?thesis
    using guard_before_backend [where u = utils0 and tr = "device_running ''Ethereum''"
        and ?m1.0 = "\<lparr>BTCGetAddress.coin = ''Bitcoin''\<rparr>" and t = "[]"
        and e = "WrongApp ''Ledger'' ''Bitcoin''" and t' = "[''getAppAndVersion'']"
        and ?b1.0 = "backend0 ''btcGetAddress''"
        and ?m2.0 = "\<lparr>BTCSignTxLedger.coin = ''Bitcoin''\<rparr>" and ?b2.0 = "backend0 ''btcSignTx''"
        and ?m3.0 = "\<lparr>BTCSignMessage.coin = ''Bitcoin''\<rparr>"
        and ?b3.0 = "backend0 ''btcSignMessage''"
        and ?b4.0 = "backend0 ''ethSignTx''" and ?m4.0 = "''tx''"
        and ?b5.0 = "backend0 ''ethGetAddress''" and ?m5.0 = "''address''"
        and ?b6.0 = "backend0 ''ethSignMessage''" and ?m6.0 = "''message''"
        and cn = "Some ''Bitcoin''"] g k
    by (simp add: backend0_def)
qed

end
